theory Spec2Isabelle
  imports Main "HOL-Library.Word" "HOL-Library.Monad_Syntax"
begin

unbundle bit_operations_syntax

section \<open>Machine words and the arena\<close>

text \<open>
  The allocator of \<^verbatim>\<open>mm.c\<close> manages one contiguous arena.  \<^verbatim>\<open>word_t\<close> and
  \<^verbatim>\<open>size_t\<close> are 64-bit unsigned integers, so their arithmetic wraps.  A pointer
  is an address, a natural number, and \<^verbatim>\<open>NULL\<close> is \<open>0\<close>; pointer arithmetic that
  leaves the address space is undefined behaviour in C and is not wrapped here.
  The memory is byte addressed and total: an access outside the live arena, which C leaves
  undefined, reads or writes the byte at that address.  Words are stored little-endian.
  The model follows the production build, in which the \<^verbatim>\<open>dbg_\<close> macros evaluate
  nothing.
\<close>

type_synonym word_t = "64 word"
type_synonym size_t = "64 word"
type_synonym memory = "nat \<Rightarrow> 8 word"

definition load64 :: "memory \<Rightarrow> nat \<Rightarrow> word_t" where
  "load64 m a = word_rcat (rev (map m [a..<a + 8]))"

definition store64 :: "memory \<Rightarrow> nat \<Rightarrow> word_t \<Rightarrow> memory" where
  "store64 m a v =
     (\<lambda>x. if a \<le> x \<and> x < a + 8 then ucast (drop_bit (8 * (x - a)) v) else m x)"

text \<open>A pointer kept in memory occupies one word.\<close>

definition load_ptr :: "memory \<Rightarrow> nat \<Rightarrow> nat" where
  "load_ptr m a = unat (load64 m a)"

definition store_ptr :: "memory \<Rightarrow> nat \<Rightarrow> nat \<Rightarrow> memory" where
  "store_ptr m a p = store64 m a (of_nat p)"

text \<open>
  The global variables \<^verbatim>\<open>heap_start\<close>, \<^verbatim>\<open>mini_root\<close> and \<^verbatim>\<open>seglist\<close>, the memory,
  and the two variables of the heap growth source: the current break and the highest
  address the arena may grow to.
\<close>

record heap =
  mem :: memory
  heap_start :: nat
  mini_root :: nat
  seglist :: "nat list"
  mem_brk :: nat
  mem_max_addr :: nat

text \<open>
  Modelled from the spec: the heap growth source \<^verbatim>\<open>mem_sbrk\<close> and \<^verbatim>\<open>mem_heap_hi\<close> of
  \<^verbatim>\<open>memlib\<close>, which \<^verbatim>\<open>mm.c\<close> only calls.  A request either appends exactly the
  requested bytes at the old break and returns the start of the new region, or fails
  (the sentinel \<^verbatim>\<open>(void *)-1\<close>, here \<open>None\<close>) when the range cannot grow that far,
  and then changes nothing.  \<^verbatim>\<open>mem_heap_hi\<close> is the address of the last byte.
\<close>

definition mem_sbrk :: "heap \<Rightarrow> size_t \<Rightarrow> heap \<times> nat option" where
  "mem_sbrk s incr =
     (if mem_brk s + unat incr > mem_max_addr s then (s, None)
      else (s\<lparr>mem_brk := mem_brk s + unat incr\<rparr>, Some (mem_brk s)))"

definition mem_heap_hi :: "heap \<Rightarrow> nat" where
  "mem_heap_hi s = mem_brk s - 1"

text \<open>
  Modelled from the spec: \<^verbatim>\<open>memcpy\<close> and \<^verbatim>\<open>memset\<close> of the C library, which copy and
  fill a run of bytes from the lowest address upwards.
\<close>

primrec copy_bytes :: "memory \<Rightarrow> nat \<Rightarrow> nat \<Rightarrow> nat \<Rightarrow> memory" where
  "copy_bytes m dst src 0 = m"
| "copy_bytes m dst src (Suc n) = copy_bytes (m(dst := m src)) (Suc dst) (Suc src) n"

primrec fill_bytes :: "memory \<Rightarrow> nat \<Rightarrow> 8 word \<Rightarrow> nat \<Rightarrow> memory" where
  "fill_bytes m dst c 0 = m"
| "fill_bytes m dst c (Suc n) = fill_bytes (m(dst := c)) (Suc dst) c n"

definition memcpy :: "heap \<Rightarrow> nat \<Rightarrow> nat \<Rightarrow> size_t \<Rightarrow> heap" where
  "memcpy s dst src n = s\<lparr>mem := copy_bytes (mem s) dst src (unat n)\<rparr>"

definition memset :: "heap \<Rightarrow> nat \<Rightarrow> 8 word \<Rightarrow> size_t \<Rightarrow> heap" where
  "memset s dst c n = s\<lparr>mem := fill_bytes (mem s) dst c (unat n)\<rparr>"

section \<open>Basic constants\<close>

definition wsize :: size_t where "wsize = 8"
definition dsize :: size_t where "dsize = 2 * wsize"
definition min_block_size :: size_t where "min_block_size = dsize"
definition chunksize :: size_t where "chunksize = push_bit 9 1"
definition alloc_mask :: word_t where "alloc_mask = 0x1"
definition palloc_mask :: word_t where "palloc_mask = 0x2"
definition mpalloc_mask :: word_t where "mpalloc_mask = 0x4"
definition size_mask :: word_t where "size_mask = NOT 0xF"
definition BUCKET_COUNT :: nat where "BUCKET_COUNT = 14"
definition MINI_BLOCK_SIZE :: size_t where "MINI_BLOCK_SIZE = 16"

text \<open>
  The fields of \<^verbatim>\<open>block_t\<close> and \<^verbatim>\<open>mini_block_t\<close>: the header at offset 0, then
  the union of the payload with the link \<^verbatim>\<open>next\<close> at offset 8 and, for a normal block,
  \<^verbatim>\<open>prev\<close> at offset 16.
\<close>

definition header :: "heap \<Rightarrow> nat \<Rightarrow> word_t" where
  "header s block = load64 (mem s) block"

definition set_header :: "heap \<Rightarrow> nat \<Rightarrow> word_t \<Rightarrow> heap" where
  "set_header s block w = s\<lparr>mem := store64 (mem s) block w\<rparr>"

definition next_of :: "heap \<Rightarrow> nat \<Rightarrow> nat" where
  "next_of s block = load_ptr (mem s) (block + 8)"

definition prev_of :: "heap \<Rightarrow> nat \<Rightarrow> nat" where
  "prev_of s block = load_ptr (mem s) (block + 16)"

definition set_next :: "heap \<Rightarrow> nat \<Rightarrow> nat \<Rightarrow> heap" where
  "set_next s block p = s\<lparr>mem := store_ptr (mem s) (block + 8) p\<rparr>"

definition set_prev :: "heap \<Rightarrow> nat \<Rightarrow> nat \<Rightarrow> heap" where
  "set_prev s block p = s\<lparr>mem := store_ptr (mem s) (block + 16) p\<rparr>"

section \<open>Block metadata codec\<close>

definition max_size_t :: "size_t \<Rightarrow> size_t \<Rightarrow> size_t" where
  "max_size_t x y = (if x > y then x else y)"

definition round_up :: "size_t \<Rightarrow> size_t \<Rightarrow> size_t" where
  "round_up sz n = n * ((sz + (n - 1)) div n)"

definition pack :: "size_t \<Rightarrow> bool \<Rightarrow> bool \<Rightarrow> bool \<Rightarrow> word_t" where
  "pack sz mpalloc palloc alloc =
     (let word = sz;
          word = (if alloc then word OR alloc_mask else word);
          word = (if palloc then word OR palloc_mask else word);
          word = (if mpalloc then word OR mpalloc_mask else word)
      in word)"

definition extract_size :: "word_t \<Rightarrow> size_t" where
  "extract_size word = word AND size_mask"

definition extract_alloc :: "word_t \<Rightarrow> bool" where
  "extract_alloc word = (word AND alloc_mask \<noteq> 0)"

definition extract_palloc :: "word_t \<Rightarrow> bool" where
  "extract_palloc word = (drop_bit 1 (word AND palloc_mask) \<noteq> 0)"

definition extract_mpalloc :: "word_t \<Rightarrow> bool" where
  "extract_mpalloc word = (drop_bit 2 (word AND mpalloc_mask) \<noteq> 0)"

definition get_size :: "heap \<Rightarrow> nat \<Rightarrow> size_t" where
  "get_size s block = extract_size (header s block)"

definition get_alloc :: "heap \<Rightarrow> nat \<Rightarrow> bool" where
  "get_alloc s block = extract_alloc (header s block)"

definition get_palloc :: "heap \<Rightarrow> nat \<Rightarrow> bool" where
  "get_palloc s block = extract_palloc (header s block)"

definition get_mpalloc :: "heap \<Rightarrow> nat \<Rightarrow> bool" where
  "get_mpalloc s block = extract_mpalloc (header s block)"

section \<open>Boundary navigation\<close>

definition payload_to_header :: "nat \<Rightarrow> nat" where
  "payload_to_header bp = bp - 8"

definition header_to_payload :: "nat \<Rightarrow> nat" where
  "header_to_payload block = block + 8"

definition header_to_footer :: "heap \<Rightarrow> nat \<Rightarrow> nat" where
  "header_to_footer s block = block + 8 + unat (get_size s block) - 16"

definition footer_to_header :: "heap \<Rightarrow> nat \<Rightarrow> nat" where
  "footer_to_header s footer =
     (let sz = extract_size (load64 (mem s) footer) in footer + 8 - unat sz)"

definition get_payload_size :: "heap \<Rightarrow> nat \<Rightarrow> size_t" where
  "get_payload_size s block = (let asize = get_size s block in asize - wsize)"

definition find_next :: "heap \<Rightarrow> nat \<Rightarrow> nat" where
  "find_next s block = block + unat (get_size s block)"

definition find_prev_footer :: "nat \<Rightarrow> nat" where
  "find_prev_footer block = block - 8"

definition find_prev :: "heap \<Rightarrow> nat \<Rightarrow> bool \<Rightarrow> nat" where
  "find_prev s block mpalloc =
     (if mpalloc then block - unat MINI_BLOCK_SIZE
      else (let footerp = find_prev_footer block in
            if extract_size (load64 (mem s) footerp) = 0 then 0
            else footer_to_header s footerp))"

definition write_epilogue :: "heap \<Rightarrow> nat \<Rightarrow> bool \<Rightarrow> bool \<Rightarrow> heap" where
  "write_epilogue s block mpalloc palloc = set_header s block (pack 0 mpalloc palloc True)"

definition isEpilogue :: "heap \<Rightarrow> nat \<Rightarrow> bool" where
  "isEpilogue s block =
     (block = mem_heap_hi s - 7 \<and> get_alloc s block \<and> get_size s block = 0)"

definition isMiniBlock :: "heap \<Rightarrow> nat \<Rightarrow> bool" where
  "isMiniBlock s block = (get_size s block = MINI_BLOCK_SIZE)"

definition isMiniSize :: "size_t \<Rightarrow> bool" where
  "isMiniSize sz = (sz = MINI_BLOCK_SIZE)"

definition write_block :: "heap \<Rightarrow> nat \<Rightarrow> size_t \<Rightarrow> bool \<Rightarrow> bool \<Rightarrow> bool \<Rightarrow> heap" where
  "write_block s block sz mpalloc palloc alloc =
     (if isMiniSize sz then set_header s block (pack sz mpalloc palloc alloc)
      else if alloc then set_header s block (pack sz mpalloc palloc alloc)
      else (let s1 = set_header s block (pack sz mpalloc palloc alloc);
                footerp = header_to_footer s1 block
            in s1\<lparr>mem := store64 (mem s1) footerp (pack sz mpalloc palloc alloc)\<rparr>))"

section \<open>Segregated free lists\<close>

text \<open>
  \<^verbatim>\<open>assert\<close> is the C library's: a failed assertion aborts the program.  A call that
  does not return, by an abort or by a loop that never ends, has the value \<open>None\<close>.
\<close>

definition explicit_insert_block :: "heap \<Rightarrow> nat \<Rightarrow> nat \<Rightarrow> heap option" where
  "explicit_insert_block s block idx =
     (if isMiniBlock s block then None
      else if seglist s ! idx = 0 then
        (let s1 = s\<lparr>seglist := (seglist s)[idx := block]\<rparr>;
             s2 = set_next s1 block 0;
             s3 = set_prev s2 block 0
         in Some s3)
      else
        (let s1 = set_prev s (seglist s ! idx) block;
             s2 = set_next s1 block (seglist s1 ! idx);
             s3 = set_prev s2 block 0;
             s4 = s3\<lparr>seglist := (seglist s3)[idx := block]\<rparr>
         in Some s4))"

definition explicit_remove_block :: "heap \<Rightarrow> nat \<Rightarrow> nat \<Rightarrow> heap option" where
  "explicit_remove_block s block idx =
     (if isMiniBlock s block then None
      else
        (let prev_free_block = prev_of s block;
             next_free_block = next_of s block
         in if prev_free_block = 0 \<and> next_free_block = 0 then
              Some (s\<lparr>seglist := (seglist s)[idx := 0]\<rparr>)
            else if prev_free_block = 0 \<and> next_free_block \<noteq> 0 then
              (let s1 = set_prev s next_free_block 0
               in Some (s1\<lparr>seglist := (seglist s1)[idx := next_free_block]\<rparr>))
            else if prev_free_block \<noteq> 0 \<and> next_free_block = 0 then
              Some (set_next s prev_free_block 0)
            else
              (let s1 = set_next s prev_free_block next_free_block
               in Some (set_prev s1 next_free_block prev_free_block))))"

definition seglist_init :: "heap \<Rightarrow> heap" where
  "seglist_init s = s\<lparr>seglist := replicate BUCKET_COUNT 0\<rparr>"

definition home_address :: "size_t \<Rightarrow> nat" where
  "home_address sz =
     (if sz = 32 then 0
      else if 33 \<le> sz \<and> sz \<le> 64 then 1
      else if 65 \<le> sz \<and> sz \<le> 85 then 2
      else if 86 \<le> sz \<and> sz \<le> 112 then 3
      else if 113 \<le> sz \<and> sz \<le> 128 then 4
      else if 129 \<le> sz \<and> sz \<le> 160 then 5
      else if 161 \<le> sz \<and> sz \<le> 200 then 6
      else if 201 \<le> sz \<and> sz \<le> 256 then 7
      else if 257 \<le> sz \<and> sz \<le> 512 then 8
      else if 513 \<le> sz \<and> sz \<le> 1024 then 9
      else if 1025 \<le> sz \<and> sz \<le> 2048 then 10
      else if 2049 \<le> sz \<and> sz \<le> 4096 then 11
      else if 4097 \<le> sz \<and> sz \<le> 8192 then 12
      else 13)"

definition update_next_palloc :: "heap \<Rightarrow> nat \<Rightarrow> heap" where
  "update_next_palloc s block =
     (let alloc = get_alloc s block;
          next = find_next s block;
          next_size = get_size s next;
          next_alloc = get_alloc s next;
          next_mpalloc = get_mpalloc s next
      in if isEpilogue s next then write_epilogue s next next_mpalloc alloc
         else write_block s next next_size next_mpalloc alloc next_alloc)"

definition update_next_mpalloc :: "heap \<Rightarrow> nat \<Rightarrow> heap" where
  "update_next_mpalloc s block =
     (let new_next_mpalloc = isMiniBlock s block;
          next = find_next s block;
          next_size = get_size s next;
          next_alloc = get_alloc s next;
          next_palloc = get_palloc s next
      in if isEpilogue s next then write_epilogue s next new_next_mpalloc next_palloc
         else write_block s next next_size new_next_mpalloc next_palloc next_alloc)"

section \<open>The list of mini blocks\<close>

definition insert_mini_block :: "heap \<Rightarrow> nat \<Rightarrow> heap option" where
  "insert_mini_block s mini_block =
     (if \<not> isMiniBlock s mini_block then None
      else
        (let s1 = (if mini_root s = 0
                   then set_next (s\<lparr>mini_root := mini_block\<rparr>) mini_block 0
                   else (set_next s mini_block (mini_root s))\<lparr>mini_root := mini_block\<rparr>);
             s2 = update_next_palloc s1 mini_block;
             s3 = update_next_mpalloc s2 mini_block
         in Some s3))"

text \<open>
  The \<^verbatim>\<open>while\<close> loop of \<^verbatim>\<open>remove_mini_block\<close>.  The flag of the result says whether
  the loop left the function by its \<^verbatim>\<open>return\<close>.
\<close>

partial_function (option) remove_mini_scan :: "heap \<Rightarrow> nat \<Rightarrow> nat \<Rightarrow> (bool \<times> heap) option" where
  "remove_mini_scan s mini_block cur_mini_block =
     (if cur_mini_block \<noteq> 0 then
        (if next_of s cur_mini_block = mini_block then
           (let s1 = set_next s cur_mini_block (next_of s mini_block);
                s2 = set_next s1 mini_block 0
            in Some (True, s2))
         else remove_mini_scan s mini_block (next_of s cur_mini_block))
      else Some (False, s))"

declare remove_mini_scan.simps [code]

definition remove_mini_block :: "heap \<Rightarrow> nat \<Rightarrow> heap option" where
  "remove_mini_block s mini_block =
     (if \<not> isMiniBlock s mini_block then None
      else if mini_root s = 0 then Some s
      else if mini_root s = mini_block then
        (let s1 = s\<lparr>mini_root := next_of s mini_block\<rparr>;
             s2 = set_next s1 mini_block 0;
             s3 = update_next_palloc s2 mini_block;
             s4 = update_next_mpalloc s3 mini_block
         in Some s4)
      else
        (case remove_mini_scan s mini_block (mini_root s) of
           None \<Rightarrow> None
         | Some (True, s1) \<Rightarrow> Some s1
         | Some (False, s1) \<Rightarrow>
             (let s2 = update_next_palloc s1 mini_block;
                  s3 = update_next_mpalloc s2 mini_block
              in Some s3)))"

section \<open>Fit search\<close>

text \<open>
  The locals of \<^verbatim>\<open>find_fit\<close> that the loops change: \<^verbatim>\<open>count_switch\<close>, \<^verbatim>\<open>counter\<close>,
  \<^verbatim>\<open>best_block\<close> and \<^verbatim>\<open>best_gap\<close>.  \<^verbatim>\<open>best_gap\<close> is read only after it has been
  assigned, so its initial value, which C leaves open, is taken to be 0.
\<close>

record fit_locals =
  count_switch :: bool
  counter :: int
  best_block :: nat
  best_gap :: size_t

datatype fit_scan = Returned nat | Exhausted fit_locals

text \<open>The first \<^verbatim>\<open>if\<close> of the body of the inner loop: a block that fits.\<close>

definition consider_block :: "heap \<Rightarrow> size_t \<Rightarrow> nat \<Rightarrow> fit_locals \<Rightarrow> fit_locals" where
  "consider_block s asize cur_block l =
     (if asize \<le> get_size s cur_block then
        (if best_block l = 0 then
           l\<lparr>best_block := cur_block,
             best_gap := get_size s cur_block - asize,
             count_switch := True\<rparr>
         else if get_size s cur_block - asize < best_gap l then
           l\<lparr>best_gap := get_size s cur_block - asize, best_block := cur_block\<rparr>
         else l)
      else l)"

partial_function (option) find_fit_bucket :: "heap \<Rightarrow> size_t \<Rightarrow> nat \<Rightarrow> fit_locals \<Rightarrow> fit_scan option" where
  "find_fit_bucket s asize cur_block l =
     (if cur_block \<noteq> 0 \<and> get_size s cur_block > 0 then
        (let l1 = consider_block s asize cur_block l in
         if count_switch l1 then
           (let l2 = l1\<lparr>counter := counter l1 - 1\<rparr> in
            if counter l2 = 0 then Some (Returned (best_block l2))
            else find_fit_bucket s asize (next_of s cur_block) l2)
         else find_fit_bucket s asize (next_of s cur_block) l1)
      else Some (Exhausted l))"

declare find_fit_bucket.simps [code]

function find_fit_from :: "heap \<Rightarrow> size_t \<Rightarrow> nat \<Rightarrow> fit_locals \<Rightarrow> nat option" where
  "find_fit_from s asize i l =
     (if i < BUCKET_COUNT then
        (case find_fit_bucket s asize (seglist s ! i) l of
           None \<Rightarrow> None
         | Some (Returned b) \<Rightarrow> Some b
         | Some (Exhausted l1) \<Rightarrow>
             (if best_block l1 \<noteq> 0 then Some (best_block l1)
              else find_fit_from s asize (i + 1) l1))
      else Some (best_block l))"
  by pat_completeness auto
termination
  by (relation "measure (\<lambda>(s, asize, i, l). BUCKET_COUNT - i)") auto

declare find_fit_from.simps [simp del]

definition find_fit :: "heap \<Rightarrow> size_t \<Rightarrow> nat \<Rightarrow> nat option" where
  "find_fit s asize idx =
     find_fit_from s asize idx
       \<lparr>count_switch = False, counter = 3, best_block = 0, best_gap = 0\<rparr>"

definition mm_checkheap :: "int \<Rightarrow> bool" where
  "mm_checkheap line = True"

definition insertVagueBlock :: "heap \<Rightarrow> nat \<Rightarrow> heap option" where
  "insertVagueBlock s block =
     (if isMiniBlock s block then insert_mini_block s block
      else explicit_insert_block s block (home_address (get_size s block)))"

definition removeVagueBlock :: "heap \<Rightarrow> nat \<Rightarrow> heap option" where
  "removeVagueBlock s block =
     (if isMiniBlock s block then remove_mini_block s block
      else explicit_remove_block s block (home_address (get_size s block)))"

section \<open>Coalescing\<close>

text \<open>
  \<^verbatim>\<open>find_prev\<close> can return \<^verbatim>\<open>NULL\<close>, and \<^verbatim>\<open>coalesce_block\<close> reads the header of
  the block it returns without a check.  Reading through the null pointer ends the
  program, so that call does not return.
\<close>

definition coalesce_block :: "heap \<Rightarrow> nat \<Rightarrow> (heap \<times> nat) option" where
  "coalesce_block s block =
     (let next = find_next s block;
          prev_allocated = get_palloc s block;
          next_allocated = get_alloc s next;
          mpalloc = get_mpalloc s block
      in if \<not> prev_allocated \<and> \<not> next_allocated then
           (let prev = find_prev s block mpalloc in
            if prev = 0 then None else
            let prev_mpalloc = get_mpalloc s prev;
                prev_palloc = get_palloc s prev;
                newSum = get_size s prev + get_size s block + get_size s next
            in do {
                 s1 \<leftarrow> removeVagueBlock s prev;
                 s2 \<leftarrow> removeVagueBlock s1 next;
                 let s3 = write_block s2 prev newSum prev_mpalloc prev_palloc False;
                 s4 \<leftarrow> insertVagueBlock s3 prev;
                 let s5 = update_next_palloc s4 prev;
                 let s6 = update_next_mpalloc s5 prev;
                 Some (s6, prev)
               })
         else if \<not> next_allocated \<and> prev_allocated then
           (let newSum = get_size s block + get_size s next
            in do {
                 s1 \<leftarrow> removeVagueBlock s next;
                 let block_mpalloc = get_mpalloc s1 block;
                 let block_palloc = get_palloc s1 block;
                 let s2 = write_block s1 block newSum block_mpalloc block_palloc False;
                 s3 \<leftarrow> insertVagueBlock s2 block;
                 let s4 = update_next_mpalloc s3 block;
                 let s5 = update_next_palloc s4 block;
                 Some (s5, block)
               })
         else if \<not> prev_allocated \<and> next_allocated then
           (let prev = find_prev s block mpalloc in
            if prev = 0 then None else
            let prev_mpalloc = get_mpalloc s prev;
                prev_palloc = get_palloc s prev;
                newSum = get_size s prev + get_size s block
            in do {
                 s1 \<leftarrow> removeVagueBlock s prev;
                 let s2 = write_block s1 prev newSum prev_mpalloc prev_palloc False;
                 s3 \<leftarrow> insertVagueBlock s2 prev;
                 let s4 = update_next_palloc s3 prev;
                 let s5 = update_next_mpalloc s4 prev;
                 Some (s5, prev)
               })
         else
           do {
             s1 \<leftarrow> insertVagueBlock s block;
             let s2 = update_next_palloc s1 block;
             let s3 = update_next_mpalloc s2 block;
             Some (s3, block)
           })"

section \<open>Heap growth and initialisation\<close>

text \<open>A result pointer of 0 is \<^verbatim>\<open>NULL\<close>.\<close>

definition extend_heap :: "heap \<Rightarrow> size_t \<Rightarrow> bool \<Rightarrow> bool \<Rightarrow> (heap \<times> nat) option" where
  "extend_heap s sz mpalloc palloc =
     (let sz = round_up sz dsize in
      case mem_sbrk s sz of
        (s1, None) \<Rightarrow> Some (s1, 0)
      | (s1, Some bp) \<Rightarrow>
          (let block = payload_to_header bp;
               s2 = write_block s1 block sz mpalloc palloc False;
               block_next = find_next s2 block;
               s3 = write_epilogue s2 block_next (isMiniBlock s2 block) False
           in coalesce_block s3 block))"

definition mm_init :: "heap \<Rightarrow> (heap \<times> bool) option" where
  "mm_init s =
     (let s1 = seglist_init s;
          s2 = s1\<lparr>mini_root := 0\<rparr>
      in case mem_sbrk s2 (2 * wsize) of
           (s3, None) \<Rightarrow> Some (s3, False)
         | (s3, Some start) \<Rightarrow>
             (let s4 = s3\<lparr>mem := store64 (mem s3) start (pack 0 False True True)\<rparr>;
                  s5 = s4\<lparr>mem := store64 (mem s4) (start + 8) (pack 0 False True True)\<rparr>;
                  s6 = s5\<lparr>heap_start := start + 8\<rparr>
              in do {
                   (s7, block) \<leftarrow> extend_heap s6 chunksize False True;
                   if block = 0 then Some (s7, False) else Some (s7, True)
                 }))"

section \<open>Splitting\<close>

definition split_block :: "heap \<Rightarrow> nat \<Rightarrow> size_t \<Rightarrow> heap option" where
  "split_block s block asize =
     (let block_size = get_size s block
      in if block_size - asize \<ge> min_block_size then
           (let mpalloc = get_mpalloc s block;
                palloc = get_palloc s block
            in do {
                 s1 \<leftarrow> removeVagueBlock s block;
                 let s2 = write_block s1 block asize mpalloc palloc True;
                 let block_next = find_next s2 block;
                 let s3 = write_block s2 block_next (block_size - asize)
                            (isMiniBlock s2 block) True False;
                 s4 \<leftarrow> insertVagueBlock s3 block_next;
                 let s5 = update_next_mpalloc s4 block_next;
                 let s6 = update_next_palloc s5 block_next;
                 Some s6
               })
         else
           (let mpalloc = get_mpalloc s block;
                palloc = get_palloc s block
            in do {
                 s1 \<leftarrow> removeVagueBlock s block;
                 let s2 = write_block s1 block block_size mpalloc palloc True;
                 let s3 = update_next_palloc s2 block;
                 let s4 = update_next_mpalloc s3 block;
                 Some s4
               }))"

section \<open>The allocator's entry points\<close>

text \<open>\<^verbatim>\<open>malloc\<close> ignores the result of \<^verbatim>\<open>mm_init\<close>.\<close>

definition malloc :: "heap \<Rightarrow> size_t \<Rightarrow> (heap \<times> nat) option" where
  "malloc s sz =
     do {
       s1 \<leftarrow> (if heap_start s = 0 then map_option fst (mm_init s) else Some s);
       if sz = 0 then Some (s1, 0)
       else
         (let asize = round_up (sz + wsize) dsize in
          do {
            block \<leftarrow> (if asize = MINI_BLOCK_SIZE then
                        (if mini_root s1 = 0 then find_fit s1 asize 0
                         else Some (mini_root s1))
                      else find_fit s1 asize (home_address asize));
            (s2, block) \<leftarrow>
              (if block = 0 then
                 (let old_mpalloc = get_mpalloc s1 (mem_heap_hi s1 - 7);
                      old_palloc = get_palloc s1 (mem_heap_hi s1 - 7);
                      extendsize = max_size_t asize chunksize
                  in extend_heap s1 extendsize old_mpalloc old_palloc)
               else Some (s1, block));
            if block = 0 then Some (s2, 0)
            else
              (let block_size = get_size s2 block;
                   mpalloc = get_mpalloc s2 block;
                   palloc = get_palloc s2 block;
                   s3 = write_block s2 block block_size mpalloc palloc True
               in do {
                    s4 \<leftarrow> split_block s3 block asize;
                    Some (s4, header_to_payload block)
                  })
          })
     }"

definition free :: "heap \<Rightarrow> nat \<Rightarrow> heap option" where
  "free s bp =
     (if bp = 0 then Some s
      else
        (let block = payload_to_header bp;
             sz = get_size s block;
             mpalloc = get_mpalloc s block;
             palloc = get_palloc s block;
             s1 = write_block s block sz mpalloc palloc False
         in do {
              (s2, block) \<leftarrow> coalesce_block s1 block;
              let s3 = update_next_mpalloc s2 block;
              let s4 = update_next_palloc s3 block;
              Some s4
            }))"

definition realloc :: "heap \<Rightarrow> nat \<Rightarrow> size_t \<Rightarrow> (heap \<times> nat) option" where
  "realloc s ptr sz =
     (let block = payload_to_header ptr
      in if sz = 0 then map_option (\<lambda>s1. (s1, 0)) (free s ptr)
         else if ptr = 0 then malloc s sz
         else
           do {
             (s1, newptr) \<leftarrow> malloc s sz;
             if newptr = 0 then Some (s1, 0)
             else
               (let copysize = get_payload_size s1 block;
                    copysize = (if sz < copysize then sz else copysize);
                    s2 = memcpy s1 newptr ptr copysize
                in do {
                     s3 \<leftarrow> free s2 ptr;
                     Some (s3, newptr)
                   })
           })"

definition calloc :: "heap \<Rightarrow> size_t \<Rightarrow> size_t \<Rightarrow> (heap \<times> nat) option" where
  "calloc s elements sz =
     (let asize = elements * sz
      in if elements = 0 then Some (s, 0)
         else if asize div elements \<noteq> sz then Some (s, 0)
         else
           do {
             (s1, bp) \<leftarrow> malloc s asize;
             if bp = 0 then Some (s1, 0)
             else Some (memset s1 bp 0 asize, bp)
           })"

section \<open>Vocabulary of the specification\<close>

text \<open>
  The allocator has been initialised when \<^verbatim>\<open>heap_start\<close> is set and lies in the arena,
  as \<^verbatim>\<open>mm_init\<close> leaves it.
\<close>

definition initialised :: "heap \<Rightarrow> bool" where
  "initialised s = (heap_start s \<noteq> 0 \<and> heap_start s + 8 \<le> mem_brk s)"

text \<open>
  The table of bucket boundaries as the specification writes it: the inclusive lower
  and upper bound of each of the 14 size classes, the last one unbounded.
\<close>

definition bucket_bounds :: "(nat \<times> nat option) list" where
  "bucket_bounds =
     [(32, Some 32), (33, Some 64), (65, Some 85), (86, Some 112), (113, Some 128),
      (129, Some 160), (161, Some 200), (201, Some 256), (257, Some 512),
      (513, Some 1024), (1025, Some 2048), (2049, Some 4096), (4097, Some 8192),
      (8193, None)]"

definition in_bounds :: "nat \<Rightarrow> nat \<times> nat option \<Rightarrow> bool" where
  "in_bounds n b = (fst b \<le> n \<and> (case snd b of None \<Rightarrow> True | Some hi \<Rightarrow> n \<le> hi))"

text \<open>
  The blocks of the arena in address order, from the first block up to the epilogue,
  and whether two neighbours among them are both free.
\<close>

function blocks_from :: "heap \<Rightarrow> nat \<Rightarrow> nat list" where
  "blocks_from s block =
     (if block + 8 < mem_brk s \<and> get_size s block \<noteq> 0
      then block # blocks_from s (find_next s block) else [])"
  by pat_completeness auto
termination
proof (relation "measure (\<lambda>(s, block). mem_brk s - block)")
  show "wf (measure (\<lambda>(s, block). mem_brk s - block))" by simp
next
  fix s :: heap and block :: nat
  assume a: "block + 8 < mem_brk s \<and> get_size s block \<noteq> 0"
  then have "0 < unat (get_size s block)" by (simp add: unat_gt_0)
  with a have "mem_brk s - (block + unat (get_size s block)) < mem_brk s - block"
    by arith
  then show "((s, find_next s block), (s, block)) \<in> measure (\<lambda>(s, block). mem_brk s - block)"
    by (simp add: find_next_def)
qed

declare blocks_from.simps [simp del]

definition heap_blocks :: "heap \<Rightarrow> nat list" where
  "heap_blocks s = blocks_from s (heap_start s)"

fun adjacent_free :: "heap \<Rightarrow> nat list \<Rightarrow> bool" where
  "adjacent_free s (a # b # bs) =
     ((\<not> get_alloc s a \<and> \<not> get_alloc s b) \<or> adjacent_free s (b # bs))"
| "adjacent_free s bs = False"

section \<open>The free lists as lists of blocks\<close>

text \<open>
  The list of a bucket, read from memory: \<open>dlist s q p xs\<close> says that the blocks \<open>xs\<close>
  are linked from \<open>p\<close> to the null pointer by their \<^verbatim>\<open>next\<close> fields, and that each
  \<^verbatim>\<open>prev\<close> field points to the block before, the first one to \<open>q\<close>.  \<open>slist\<close> is the
  same for the mini list, which has no \<^verbatim>\<open>prev\<close> fields.
\<close>

fun dlist :: "heap \<Rightarrow> nat \<Rightarrow> nat \<Rightarrow> nat list \<Rightarrow> bool" where
  "dlist s q p [] = (p = 0)"
| "dlist s q p (x # xs) = (p = x \<and> x \<noteq> 0 \<and> prev_of s x = q \<and> dlist s x (next_of s x) xs)"

fun slist :: "heap \<Rightarrow> nat \<Rightarrow> nat list \<Rightarrow> bool" where
  "slist s p [] = (p = 0)"
| "slist s p (x # xs) = (p = x \<and> x \<noteq> 0 \<and> slist s (next_of s x) xs)"

definition free_nodes :: "nat list list \<Rightarrow> nat list \<Rightarrow> nat set" where
  "free_nodes L M = set (concat L) \<union> set M"

text \<open>
  The free structures hold the lists \<open>L\<close>, one for each bucket, and the mini list \<open>M\<close>:
  every bucket lists blocks of its size class, the mini list blocks of 16 bytes, no block
  occurs twice, the blocks are word aligned, lie in the address space and do not overlap.
\<close>

definition free_lists :: "heap \<Rightarrow> nat list list \<Rightarrow> nat list \<Rightarrow> bool" where
  "free_lists s L M \<longleftrightarrow>
     length (seglist s) = BUCKET_COUNT \<and> length L = BUCKET_COUNT \<and>
     (\<forall>i<BUCKET_COUNT. dlist s 0 (seglist s ! i) (L ! i) \<and> distinct (L ! i) \<and>
        (\<forall>x\<in>set (L ! i). 32 \<le> get_size s x \<and> home_address (get_size s x) = i)) \<and>
     slist s (mini_root s) M \<and> distinct M \<and>
     (\<forall>x\<in>set M. get_size s x = MINI_BLOCK_SIZE) \<and>
     (\<forall>x\<in>free_nodes L M. 8 dvd x \<and> find_next s x \<le> 2 ^ 64) \<and>
     (\<forall>x\<in>free_nodes L M. \<forall>y\<in>free_nodes L M.
        x \<noteq> y \<longrightarrow> find_next s x \<le> y \<or> find_next s y \<le> x)"



text \<open>
  \<open>untouched W s s'\<close>: outside of the addresses \<open>W\<close>, every aligned word of the memory
  of \<open>s'\<close> is as in \<open>s\<close>.
\<close>

definition untouched :: "nat set \<Rightarrow> heap \<Rightarrow> heap \<Rightarrow> bool" where
  "untouched W s s' \<longleftrightarrow> (\<forall>c. 8 dvd c \<longrightarrow> c \<notin> W \<longrightarrow> header s' c = header s c)"

text \<open>The links alone: every bucket and the mini list are linked as \<open>L\<close> and \<open>M\<close> say.\<close>

definition linked :: "heap \<Rightarrow> nat list list \<Rightarrow> nat list \<Rightarrow> bool" where
  "linked s L M \<longleftrightarrow>
     length (seglist s) = BUCKET_COUNT \<and> length L = BUCKET_COUNT \<and>
     (\<forall>i<BUCKET_COUNT. dlist s 0 (seglist s ! i) (L ! i)) \<and> slist s (mini_root s) M"

section \<open>Concrete heaps\<close>

text \<open>
  A memory given by the words stored in it, lowest address first; every other byte is 0.
\<close>

primrec mem_of :: "(nat \<times> word_t) list \<Rightarrow> memory" where
  "mem_of [] = (\<lambda>_. 0)"
| "mem_of (e # es) = store64 (mem_of es) (fst e) (snd e)"

declare mem_of.simps [simp del]

fun put :: "nat \<Rightarrow> word_t \<Rightarrow> (nat \<times> word_t) list \<Rightarrow> (nat \<times> word_t) list" where
  "put a v [] = [(a, v)]"
| "put a v ((b, w) # es) =
     (if a = b then (a, v) # es
      else if a < b then (a, v) # (b, w) # es
      else (b, w) # put a v es)"

fun fits :: "nat \<Rightarrow> (nat \<times> word_t) list \<Rightarrow> bool" where
  "fits a [] = True"
| "fits a ((b, w) # es) = ((b < a \<longrightarrow> b + 8 \<le> a) \<and> fits a es)"

text \<open>
  An allocator that has not been called yet: the globals are zero, the arena is empty
  and starts at address 4096, and it may grow by one megabyte.
\<close>

definition fresh_heap :: heap where
  "fresh_heap =
     \<lparr>mem = mem_of [], heap_start = 0, mini_root = 0,
      seglist = [0, 0, 0, 0, 0, 0, 0, 0, 0, 0, 0, 0, 0, 0],
      mem_brk = 4096, mem_max_addr = 1052672\<rparr>"

text \<open>The heap that \<^verbatim>\<open>mm_init\<close> makes of it: one free block of 512 bytes.\<close>

definition heap_init :: heap where
  "heap_init =
     \<lparr>mem = mem_of [(4096, 3), (4104, 514), (4112, 0), (4120, 0), (4608, 514), (4616, 1)],
      heap_start = 4104, mini_root = 0,
      seglist = [0, 0, 0, 0, 0, 0, 0, 0, 4104, 0, 0, 0, 0, 0],
      mem_brk = 4624, mem_max_addr = 1052672\<rparr>"

text \<open>
  The heaps of a run that starts with a request of \<open>2\<^sup>6\<^sup>4 - 8\<close> bytes: after that
  request, after the release of its result, after a request of 24 bytes, and after a
  request of 1 byte.
\<close>

definition heap_a :: heap where
  "heap_a =
     \<lparr>mem = mem_of [(4096, 3), (4104, 1026), (4112, 0), (4120, 0), (4608, 514),
                    (4616, 512), (5120, 1026), (5128, 1)],
      heap_start = 4104, mini_root = 0,
      seglist = [0, 0, 0, 0, 0, 0, 0, 0, 0, 4104, 0, 0, 0, 0],
      mem_brk = 5136, mem_max_addr = 1052672\<rparr>"

definition heap_b :: heap where
  "heap_b =
     \<lparr>mem = mem_of [(4096, 3), (4104, 1026), (4112, 4104), (4120, 0), (4608, 514),
                    (4616, 512), (5120, 1026), (5128, 1)],
      heap_start = 4104, mini_root = 0,
      seglist = [0, 0, 0, 0, 0, 0, 0, 0, 0, 4104, 0, 0, 0, 0],
      mem_brk = 5136, mem_max_addr = 1052672\<rparr>"

definition heap_c :: heap where
  "heap_c =
     \<lparr>mem = mem_of [(4096, 3), (4104, 35), (4112, 4104), (4120, 4136), (4136, 994),
                    (4144, 4104), (4152, 0), (4608, 514), (4616, 512), (5120, 994),
                    (5128, 1)],
      heap_start = 4104, mini_root = 0,
      seglist = [0, 0, 0, 0, 0, 0, 0, 0, 0, 4136, 0, 0, 0, 0],
      mem_brk = 5136, mem_max_addr = 1052672\<rparr>"

definition heap_d :: heap where
  "heap_d =
     \<lparr>mem = mem_of [(4096, 3), (4104, 19), (4112, 4104), (4120, 22), (4128, 0),
                    (4136, 996), (4144, 4104), (4152, 0), (4608, 514), (4616, 512),
                    (5120, 996), (5128, 1)],
      heap_start = 4104, mini_root = 4120,
      seglist = [0, 0, 0, 0, 0, 0, 0, 0, 0, 4136, 0, 0, 0, 0],
      mem_brk = 5136, mem_max_addr = 1052672\<rparr>"

text \<open>The heap after a request of \<open>2\<^sup>6\<^sup>4 - 1\<close> bytes to the fresh allocator.\<close>

definition heap_e :: heap where
  "heap_e =
     \<lparr>mem = mem_of [(4096, 3), (4104, 19), (4112, 0), (4120, 502), (4128, 0), (4136, 0),
                    (4608, 502), (4616, 1)],
      heap_start = 4104, mini_root = 0,
      seglist = [0, 0, 0, 0, 0, 0, 0, 0, 4120, 0, 0, 0, 0, 0],
      mem_brk = 4624, mem_max_addr = 1052672\<rparr>"

text \<open>
  A heap with four free blocks of 512, 496, 480 and 464 bytes, in this order in the list
  of bucket 8, each followed by an allocated block of 16 bytes, and a free block of 32
  bytes at the end.  Eight requests, of 456, 8, 472, 8, 488, 8, 504 and 8 bytes, and the
  release of the first, third, fifth and seventh result make it of the fresh heap.
\<close>

definition heap_four :: heap where
  "heap_four =
     \<lparr>mem = mem_of [(4096, 3), (4104, 466), (4112, 0), (4120, 4584), (4560, 466),
                    (4568, 17), (4576, 0), (4584, 486), (4592, 4104), (4600, 5080),
                    (4608, 38), (4616, 512), (5056, 486), (5064, 17), (5072, 0),
                    (5080, 502), (5088, 4584), (5096, 5592), (5120, 54), (5128, 512),
                    (5568, 502), (5576, 17), (5584, 0), (5592, 518), (5600, 5080),
                    (5608, 0), (5632, 54), (5640, 512), (6096, 518), (6104, 17),
                    (6112, 0), (6120, 38), (6128, 0), (6136, 0), (6144, 38), (6152, 1)],
      heap_start = 4104, mini_root = 0,
      seglist = [6120, 0, 0, 0, 0, 0, 0, 0, 5592, 0, 0, 0, 0, 0],
      mem_brk = 6160, mem_max_addr = 1052672\<rparr>"

text \<open>
  A heap that cannot grow: its only block, of 512 bytes, is allocated and the break is
  at the highest address.
\<close>

definition heap_full :: heap where
  "heap_full =
     \<lparr>mem = mem_of [(4096, 3), (4104, 515), (4112, 0), (4120, 0), (4608, 514), (4616, 3)],
      heap_start = 4104, mini_root = 0,
      seglist = [0, 0, 0, 0, 0, 0, 0, 0, 0, 0, 0, 0, 0, 0],
      mem_brk = 4624, mem_max_addr = 4624\<rparr>"


section \<open>Facts about the memory\<close>

lemma bit_load64: "bit (load64 m a) n \<longleftrightarrow> n < 64 \<and> bit (m (a + n div 8)) (n mod 8)"
proof -
  let ?ws = "map m [a..<a + 8]"
  have "bit (horner_sum uint (2 ^ LENGTH(8)) ?ws) n \<longleftrightarrow>
          n div 8 < 8 \<and> bit (?ws ! (n div 8)) (n mod 8)"
    using bit_horner_sum_uint_exp_iff [of ?ws n] by simp
  moreover have "n < 64 \<Longrightarrow> n div 8 < 8" by (simp add: less_mult_imp_div_less)
  ultimately show ?thesis
    by (auto simp: load64_def word_rcat_def bit_word_of_int_iff)
qed

lemma load64_store64_same: "load64 (store64 m a v) a = v"
  by (rule bit_word_eqI)
     (auto simp: bit_load64 store64_def bit_ucast_iff bit_drop_bit_eq less_mult_imp_div_less)

lemma load64_store64_other:
  "a + 8 \<le> b \<or> b + 8 \<le> a \<Longrightarrow> load64 (store64 m a v) b = load64 m b"
  by (rule bit_word_eqI) (auto simp: bit_load64 store64_def less_mult_imp_div_less)

lemma load64_zero: "load64 (\<lambda>_. 0) a = 0"
  by (rule bit_word_eqI) (auto simp: bit_load64)

lemma store64_same: "store64 (store64 m a v) a w = store64 m a w"
  by (rule ext) (simp add: store64_def)

lemma store64_swap:
  "b + 8 \<le> a \<Longrightarrow> store64 (store64 m a v) b w = store64 (store64 m b w) a v"
  by (rule ext) (simp add: store64_def)

subsection \<open>Memories given by their words\<close>

lemma store64_mem_of: "fits a es \<Longrightarrow> store64 (mem_of es) a v = mem_of (put a v es)"
proof (induction es)
  case Nil
  then show ?case by (simp add: mem_of.simps)
next
  case (Cons e es)
  obtain b w where e: "e = (b, w)" by (cases e)
  show ?case
  proof (cases "a = b \<or> a < b")
    case True
    then show ?thesis by (auto simp: e store64_same mem_of.simps)
  next
    case False
    then have sep: "b + 8 \<le> a" and "fits a es" using Cons.prems by (auto simp: e)
    from \<open>fits a es\<close> have "store64 (mem_of es) a v = mem_of (put a v es)"
      by (rule Cons.IH)
    moreover have "store64 (store64 (mem_of es) b w) a v = store64 (store64 (mem_of es) a v) b w"
      using store64_swap [OF sep, of "mem_of es" v w] by simp
    ultimately show ?thesis using False by (simp add: e mem_of.simps)
  qed
qed

lemma load64_mem_of_Nil: "load64 (mem_of []) a = 0"
  by (simp add: load64_zero mem_of.simps)

lemma load64_mem_of_hit: "load64 (mem_of ((a, v) # es)) a = v"
  by (simp add: load64_store64_same mem_of.simps)

lemma load64_mem_of_miss:
  "a + 8 \<le> b \<or> b + 8 \<le> a \<Longrightarrow> load64 (mem_of ((a, v) # es)) b = load64 (mem_of es) b"
  by (simp add: load64_store64_other mem_of.simps)

subsection \<open>Running the allocator on a concrete heap\<close>

text \<open>
  The simplifier runs the functions on a heap whose memory is given by its words.  The
  congruence rules make it evaluate the first argument of a bind or a let before it looks
  at the rest.
\<close>

lemma bind_weak_cong: "x = y \<Longrightarrow> Option.bind x f = Option.bind y f"
  by simp

lemma replicate_buckets:
  "replicate 14 (0::nat) = [0, 0, 0, 0, 0, 0, 0, 0, 0, 0, 0, 0, 0, 0]"
  by (simp add: numeral_eq_Suc)

lemmas image_simps =
  store64_mem_of load64_mem_of_Nil load64_mem_of_hit load64_mem_of_miss
  load_ptr_def store_ptr_def

lemmas const_defs =
  wsize_def dsize_def min_block_size_def chunksize_def alloc_mask_def palloc_mask_def
  mpalloc_mask_def size_mask_def MINI_BLOCK_SIZE_def

lemmas codec_defs =
  max_size_t_def round_up_def pack_def extract_size_def extract_alloc_def
  extract_palloc_def extract_mpalloc_def get_size_def get_alloc_def get_palloc_def
  get_mpalloc_def header_def set_header_def next_of_def prev_of_def set_next_def set_prev_def

lemmas nav_defs =
  payload_to_header_def header_to_payload_def header_to_footer_def footer_to_header_def
  get_payload_size_def find_next_def find_prev_footer_def find_prev_def write_epilogue_def
  isEpilogue_def isMiniBlock_def isMiniSize_def write_block_def mem_heap_hi_def mem_sbrk_def

lemmas list_defs =
  explicit_insert_block_def explicit_remove_block_def seglist_init_def replicate_buckets
  home_address_def update_next_palloc_def update_next_mpalloc_def insert_mini_block_def
  remove_mini_block_def insertVagueBlock_def removeVagueBlock_def consider_block_def
  find_fit_def find_fit_bucket.simps find_fit_from.simps remove_mini_scan.simps BUCKET_COUNT_def

lemmas op_defs =
  coalesce_block_def extend_heap_def mm_init_def split_block_def malloc_def free_def
  realloc_def calloc_def

lemmas run_simps = op_defs list_defs nav_defs codec_defs const_defs image_simps Let_def

lemma mm_init_fresh: "mm_init fresh_heap = Some (heap_init, True)"
  by (simp add: fresh_heap_def heap_init_def run_simps cong: bind_weak_cong let_weak_cong)

lemma malloc_fresh_zero: "malloc fresh_heap 0 = Some (heap_init, 0)"
  by (simp add: malloc_def mm_init_fresh) (simp add: fresh_heap_def)

lemma run_a: "malloc fresh_heap 0xFFFFFFFFFFFFFFF8 = Some (heap_a, 4112)"
  by (simp add: fresh_heap_def heap_a_def run_simps cong: bind_weak_cong let_weak_cong)

lemma run_b: "free heap_a 4112 = Some heap_b"
  by (simp add: heap_a_def heap_b_def run_simps cong: bind_weak_cong let_weak_cong)

lemma run_c: "malloc heap_b 24 = Some (heap_c, 4112)"
  by (simp add: heap_b_def heap_c_def run_simps cong: bind_weak_cong let_weak_cong)

lemma run_d: "malloc heap_c 1 = Some (heap_d, 4112)"
  by (simp add: heap_c_def heap_d_def run_simps cong: bind_weak_cong let_weak_cong)

lemma blocks_d: "heap_blocks heap_d = [4104, 4120, 4136]"
  by (simp add: heap_blocks_def heap_d_def blocks_from.simps nav_defs codec_defs const_defs
      image_simps)

lemma run_e: "malloc fresh_heap 0xFFFFFFFFFFFFFFFF = Some (heap_e, 4112)"
  by (simp add: fresh_heap_def heap_e_def run_simps cong: bind_weak_cong let_weak_cong)


section \<open>The metadata codec\<close>

lemma bit_alloc_mask: "bit alloc_mask n \<longleftrightarrow> n = 0"
  by (simp add: alloc_mask_def bit_1_iff)

lemma bit_palloc_mask: "bit palloc_mask n \<longleftrightarrow> n = 1"
proof -
  have e: "palloc_mask = push_bit 1 1" by (simp add: palloc_mask_def)
  show ?thesis unfolding e bit_push_bit_iff bit_1_iff by auto
qed

lemma bit_mpalloc_mask: "bit mpalloc_mask n \<longleftrightarrow> n = 2"
proof -
  have e: "mpalloc_mask = push_bit 2 1" by (simp add: mpalloc_mask_def)
  show ?thesis unfolding e bit_push_bit_iff bit_1_iff by auto
qed

lemma bit_size_mask: "bit size_mask n \<longleftrightarrow> 4 \<le> n \<and> n < 64"
proof -
  have e: "size_mask = NOT (mask 4)" by (simp add: size_mask_def mask_eq_exp_minus_1)
  show ?thesis unfolding e bit_not_iff bit_mask_iff by auto
qed

lemma low_bits: "16 dvd unat sz \<Longrightarrow> bit (sz :: 64 word) n \<Longrightarrow> 4 \<le> n"
proof (rule ccontr)
  assume a: "16 dvd unat sz" "bit sz n" "\<not> 4 \<le> n"
  have "bit (take_bit 4 sz) n" using a(2,3) by (simp add: bit_take_bit_iff)
  moreover have "take_bit 4 (unat sz) = 0" using a(1) by (simp add: take_bit_eq_mod)
  then have "take_bit 4 sz = 0" by (metis unsigned_take_bit_eq unsigned_eq_0_iff)
  ultimately show False by simp
qed

lemma bit_pack:
  "bit (pack sz m p a) n \<longleftrightarrow> bit sz n \<or> (a \<and> n = 0) \<or> (p \<and> n = 1) \<or> (m \<and> n = 2)"
  by (auto simp: pack_def Let_def bit_or_iff bit_alloc_mask bit_palloc_mask bit_mpalloc_mask)

lemma extract_alloc_bit: "extract_alloc w \<longleftrightarrow> bit w 0"
  unfolding extract_alloc_def bit_eq_iff [where 'a = "64 word"]
  by (auto simp: bit_and_iff bit_alloc_mask)

lemma extract_palloc_bit: "extract_palloc w \<longleftrightarrow> bit w 1"
  unfolding extract_palloc_def bit_eq_iff [where 'a = "64 word"]
  by (auto simp: bit_and_iff bit_palloc_mask bit_drop_bit_eq)

lemma extract_mpalloc_bit: "extract_mpalloc w \<longleftrightarrow> bit w 2"
  unfolding extract_mpalloc_def bit_eq_iff [where 'a = "64 word"]
  by (auto simp: bit_and_iff bit_mpalloc_mask bit_drop_bit_eq numeral_2_eq_2)

lemma bit_extract_size: "bit (extract_size w) n \<longleftrightarrow> bit w n \<and> 4 \<le> n"
  by (auto simp: extract_size_def bit_and_iff bit_size_mask dest: bit_imp_le_length)

lemma extract_size_pack: "16 dvd unat sz \<Longrightarrow> extract_size (pack sz m p a) = sz"
  by (rule bit_word_eqI) (auto simp: bit_extract_size bit_pack dest: low_bits)

lemma extract_alloc_pack: "16 dvd unat sz \<Longrightarrow> extract_alloc (pack sz m p a) = a"
  by (auto simp: extract_alloc_bit bit_pack dest: low_bits)

lemma extract_palloc_pack: "16 dvd unat sz \<Longrightarrow> extract_palloc (pack sz m p a) = p"
  by (auto simp: extract_palloc_bit bit_pack dest: low_bits)

lemma extract_mpalloc_pack: "16 dvd unat sz \<Longrightarrow> extract_mpalloc (pack sz m p a) = m"
  by (auto simp: extract_mpalloc_bit bit_pack dest: low_bits)

text \<open>
  C8: for every size that is a multiple of 16 and every combination of the three flags,
  the extractors give back what was packed: the size and each of the flags.
\<close>

theorem pack_roundtrip:
  "16 dvd unat sz \<Longrightarrow>
     extract_size (pack sz mpalloc palloc alloc) = sz \<and>
     extract_alloc (pack sz mpalloc palloc alloc) = alloc \<and>
     extract_palloc (pack sz mpalloc palloc alloc) = palloc \<and>
     extract_mpalloc (pack sz mpalloc palloc alloc) = mpalloc"
  by (simp add: extract_size_pack extract_alloc_pack extract_palloc_pack extract_mpalloc_pack)

theorem pack_roundtrip_witness:
  "16 dvd unat (48 :: size_t) \<and>
     extract_size (pack 48 True False True) = 48 \<and>
     extract_alloc (pack 48 True False True) = True \<and>
     extract_palloc (pack 48 True False True) = False \<and>
     extract_mpalloc (pack 48 True False True) = True"
  using pack_roundtrip [of 48 True False True] by simp

section \<open>The size classes\<close>

lemma home_address_nat:
  "home_address sz =
     (let n = unat sz in
      if n = 32 then 0 else if 33 \<le> n \<and> n \<le> 64 then 1 else if 65 \<le> n \<and> n \<le> 85 then 2
      else if 86 \<le> n \<and> n \<le> 112 then 3 else if 113 \<le> n \<and> n \<le> 128 then 4
      else if 129 \<le> n \<and> n \<le> 160 then 5 else if 161 \<le> n \<and> n \<le> 200 then 6
      else if 201 \<le> n \<and> n \<le> 256 then 7 else if 257 \<le> n \<and> n \<le> 512 then 8
      else if 513 \<le> n \<and> n \<le> 1024 then 9 else if 1025 \<le> n \<and> n \<le> 2048 then 10
      else if 2049 \<le> n \<and> n \<le> 4096 then 11 else if 4097 \<le> n \<and> n \<le> 8192 then 12
      else 13)"
  unfolding home_address_def Let_def word_le_nat_alt word_unat_eq_iff [of sz]
  by simp

text \<open>
  C9: for every size of at least 32, \<^verbatim>\<open>home_address\<close> returns the index \<open>i\<close>, from 0
  to 13, exactly when the size lies within the \<open>i\<close>-th entry of the table of inclusive
  bounds [32], [33-64], [65-85], [86-112], [113-128], [129-160], [161-200], [201-256],
  [257-512], [513-1024], [1025-2048], [2049-4096], [4097-8192], [8193-).
\<close>

theorem home_address_table:
  "32 \<le> sz \<Longrightarrow> i < length bucket_bounds \<Longrightarrow>
     (home_address sz = i) = in_bounds (unat sz) (bucket_bounds ! i)"
proof -
  assume a: "32 \<le> sz" "i < length bucket_bounds"
  have n: "32 \<le> unat sz" using a(1) by (simp add: word_le_nat_alt)
  have "i < 14" using a(2) by (simp add: bucket_bounds_def)
  then have "i = 0 \<or> i = 1 \<or> i = 2 \<or> i = 3 \<or> i = 4 \<or> i = 5 \<or> i = 6 \<or> i = 7 \<or> i = 8
      \<or> i = 9 \<or> i = 10 \<or> i = 11 \<or> i = 12 \<or> i = 13"
    by arith
  then show ?thesis using n
    unfolding home_address_nat Let_def bucket_bounds_def in_bounds_def
    by (elim disjE) simp_all
qed

theorem home_address_table_witness:
  "(32 :: size_t) \<le> 100 \<and> 3 < length bucket_bounds \<and> home_address 100 = 3 \<and>
     in_bounds (unat (100 :: size_t)) (bucket_bounds ! 3)"
  using home_address_table [of 100 3]
  by (simp add: bucket_bounds_def home_address_def)

section \<open>Requests that allocate nothing\<close>

lemma mult_overflow_div:
  fixes elements sz :: size_t
  assumes "elements \<noteq> 0" "2 ^ 64 \<le> unat elements * unat sz"
  shows "(elements * sz) div elements \<noteq> sz"
proof
  assume e: "(elements * sz) div elements = sz"
  have "unat sz = unat (elements * sz) div unat elements"
    using e by (metis unat_div)
  then have "unat sz * unat elements \<le> unat (elements * sz)"
    by (metis div_times_less_eq_dividend)
  moreover have "unat (elements * sz) < 2 ^ 64"
    using unsigned_less [of "elements * sz"] by simp
  ultimately show False using assms(2) by (simp add: mult.commute)
qed

text \<open>
  C6: \<^verbatim>\<open>calloc\<close> returns the null pointer when the count is 0, and when the product
  of count and size does not fit into 64 bits; in both cases the state of the allocator
  stays as it was.
\<close>

theorem calloc_null_cases:
  "elements = 0 \<or> 2 ^ 64 \<le> unat elements * unat sz \<Longrightarrow> calloc s elements sz = Some (s, 0)"
  by (auto simp: calloc_def Let_def dest: mult_overflow_div)

theorem calloc_null_cases_witness:
  "2 ^ 64 \<le> unat (2 :: size_t) * unat (0xFFFFFFFFFFFFFFFF :: size_t) \<and>
     calloc fresh_heap 2 0xFFFFFFFFFFFFFFFF = Some (fresh_heap, 0) \<and>
     calloc fresh_heap 0 8 = Some (fresh_heap, 0)"
  using calloc_null_cases [of 2 "0xFFFFFFFFFFFFFFFF" fresh_heap]
    calloc_null_cases [of 0 8 fresh_heap]
  by simp

subsection \<open>Initialisation returns\<close>

lemma header_set_header_same: "header (set_header s a w) a = w"
  by (simp add: header_def set_header_def load64_store64_same)

lemma get_size_set_header_pack:
  "16 dvd unat sz \<Longrightarrow> get_size (set_header s b (pack sz mp p a)) b = sz"
  by (simp add: get_size_def header_set_header_same extract_size_pack)

lemma header_write_block_free:
  assumes "16 dvd unat sz" "32 \<le> unat sz"
  shows "header (write_block s b sz mp p False) b = pack sz mp p False"
proof -
  have "sz \<noteq> MINI_BLOCK_SIZE" using assms(2) by (auto simp: MINI_BLOCK_SIZE_def)
  moreover have "header_to_footer (set_header s b (pack sz mp p False)) b = b + unat sz - 8"
    using assms by (simp add: header_to_footer_def get_size_set_header_pack)
  ultimately show ?thesis using assms(2)
    by (simp add: write_block_def isMiniSize_def Let_def header_def set_header_def
        load64_store64_same load64_store64_other)
qed

lemma header_write_epilogue_other:
  "a + 8 \<le> b \<or> b + 8 \<le> a \<Longrightarrow> header (write_epilogue s a mp p) b = header s b"
  by (simp add: write_epilogue_def header_def set_header_def load64_store64_other)

lemma header_write_epilogue_same: "header (write_epilogue s a mp p) a = pack 0 mp p True"
  by (simp add: write_epilogue_def header_set_header_same)

lemma coalesce_block_neither:
  assumes "get_palloc s b" "get_alloc s (find_next s b)" "\<not> isMiniBlock s b"
  shows "\<exists>s'. coalesce_block s b = Some (s', b)"
  using assms
  by (simp add: coalesce_block_def insertVagueBlock_def explicit_insert_block_def Let_def)

lemma extend_heap_chunk_total: "\<exists>s' b. extend_heap s chunksize False True = Some (s', b)"
proof (cases "mem_max_addr s < mem_brk s + 512")
  case True
  then show ?thesis
    by (simp add: extend_heap_def mem_sbrk_def round_up_def chunksize_def dsize_def wsize_def)
next
  case False
  define b where "b = payload_to_header (mem_brk s)"
  define s1 where "s1 = s\<lparr>mem_brk := mem_brk s + 512\<rparr>"
  define s2 where "s2 = write_block s1 b 512 False True False"
  define s3 where "s3 = write_epilogue s2 (b + 512) (isMiniBlock s2 b) False"
  have h2: "header s2 b = pack 512 False True False"
    unfolding s2_def by (rule header_write_block_free) simp_all
  then have sz2: "get_size s2 b = 512"
    by (simp add: get_size_def extract_size_pack)
  have h3: "header s3 b = pack 512 False True False"
    unfolding s3_def using h2 by (simp add: header_write_epilogue_other)
  have e3: "header s3 (b + 512) = pack 0 (isMiniBlock s2 b) False True"
    unfolding s3_def by (rule header_write_epilogue_same)
  have sz3: "get_size s3 b = 512"
    using h3 by (simp add: get_size_def extract_size_pack)
  have "get_palloc s3 b" using h3 by (simp add: get_palloc_def extract_palloc_pack)
  moreover have "get_alloc s3 (find_next s3 b)"
    using e3 sz3 by (simp add: find_next_def get_alloc_def extract_alloc_pack)
  moreover have "\<not> isMiniBlock s3 b"
    using sz3 by (simp add: isMiniBlock_def MINI_BLOCK_SIZE_def)
  ultimately obtain s' where "coalesce_block s3 b = Some (s', b)"
    using coalesce_block_neither by blast
  moreover have "extend_heap s chunksize False True = coalesce_block s3 b"
    using False sz2
    by (simp add: extend_heap_def mem_sbrk_def round_up_def chunksize_def dsize_def wsize_def
        Let_def find_next_def s3_def s2_def s1_def b_def)
  ultimately show ?thesis by simp
qed

lemma mm_init_total: "\<exists>s' ok. mm_init s = Some (s', ok)"
proof (cases "mem_sbrk ((seglist_init s)\<lparr>mini_root := 0\<rparr>) (2 * wsize)")
  case (Pair s3 r)
  show ?thesis
  proof (cases r)
    case None
    with Pair show ?thesis by (auto simp add: mm_init_def Let_def)
  next
    case (Some start)
    let ?s6 = "s3\<lparr>mem := store64 (store64 (mem s3) start (pack 0 False True True))
                        (start + 8) (pack 0 False True True),
                   heap_start := start + 8\<rparr>"
    obtain s7 b where "extend_heap ?s6 chunksize False True = Some (s7, b)"
      using extend_heap_chunk_total by blast
    with Pair Some show ?thesis by (auto simp add: mm_init_def Let_def)
  qed
qed

lemma malloc_zero_total: "\<exists>s'. malloc s 0 = Some (s', 0)"
proof (cases "heap_start s = 0")
  case True
  obtain s' ok where "mm_init s = Some (s', ok)" using mm_init_total by blast
  with True show ?thesis by (simp add: malloc_def)
next
  case False
  then show ?thesis by (simp add: malloc_def)
qed

text \<open>
  C3, as amended: \<^verbatim>\<open>malloc\<close> of 0 bytes returns the null pointer in every state.  When
  the allocator has been initialised (\<^verbatim>\<open>heap_start\<close> is set) the state stays as it
  was.  When it has not been initialised the call runs \<^verbatim>\<open>mm_init\<close> first, and the state
  it returns is the one that \<^verbatim>\<open>mm_init\<close> leaves, whatever \<^verbatim>\<open>mm_init\<close> reports.
\<close>

theorem malloc_zero:
  "(\<exists>s'. malloc s 0 = Some (s', 0)) \<and>
   (heap_start s \<noteq> 0 \<longrightarrow> malloc s 0 = Some (s, 0)) \<and>
   (heap_start s = 0 \<longrightarrow> malloc s 0 = map_option (\<lambda>(s', ok). (s', 0)) (mm_init s))"
proof -
  have "heap_start s = 0 \<Longrightarrow> malloc s 0 = map_option (\<lambda>(s', ok). (s', 0)) (mm_init s)"
    by (cases "mm_init s") (auto simp: malloc_def)
  then show ?thesis
    using malloc_zero_total [of s] by (simp add: malloc_def)
qed

theorem malloc_zero_witness:
  "heap_start heap_init \<noteq> 0 \<and> malloc heap_init 0 = Some (heap_init, 0) \<and>
   heap_start fresh_heap = 0 \<and> mm_init fresh_heap = Some (heap_init, True) \<and>
   malloc fresh_heap 0 = Some (heap_init, 0)"
proof -
  have a: "heap_start heap_init \<noteq> 0" by (simp add: heap_init_def)
  have b: "heap_start fresh_heap = 0" by (simp add: fresh_heap_def)
  show ?thesis
    using malloc_zero [of heap_init] malloc_zero [of fresh_heap] a b
    by (simp add: mm_init_fresh)
qed

text \<open>
  C3 as the claim states it fails on the fresh allocator: \<^verbatim>\<open>malloc\<close> of 0 bytes
  initialises the heap, which grows the arena from 4096 to 4624 and puts a block into
  bucket 8.
\<close>

theorem malloc_zero_fresh_counterexample:
  "malloc fresh_heap 0 = Some (heap_init, 0) \<and> heap_init \<noteq> fresh_heap \<and>
     mem_brk fresh_heap = 4096 \<and> mem_brk heap_init = 4624 \<and>
     seglist fresh_heap ! 8 = 0 \<and> seglist heap_init ! 8 = 4104"
proof -
  have "mem_brk heap_init \<noteq> mem_brk fresh_heap"
    by (simp add: heap_init_def fresh_heap_def)
  then have "heap_init \<noteq> fresh_heap" by auto
  then show ?thesis
    by (simp add: malloc_fresh_zero) (simp add: heap_init_def fresh_heap_def)
qed

text \<open>
  C10: for every count other than 0, \<^verbatim>\<open>calloc\<close> with size 0 returns the null pointer:
  the product is 0, the overflow test passes, and \<^verbatim>\<open>malloc\<close> of 0 bytes returns null.
\<close>

theorem calloc_zero_size: "elements \<noteq> 0 \<Longrightarrow> \<exists>s'. calloc s elements 0 = Some (s', 0)"
proof -
  assume "elements \<noteq> 0"
  moreover obtain s' where "malloc s 0 = Some (s', 0)" using malloc_zero_total by blast
  ultimately show ?thesis by (simp add: calloc_def)
qed

theorem calloc_zero_size_witness:
  "(3 :: size_t) \<noteq> 0 \<and> (\<exists>s'. calloc fresh_heap 3 0 = Some (s', 0))"
  using calloc_zero_size [of 3 fresh_heap] by simp

section \<open>A failed request inside \<^verbatim>\<open>realloc\<close>\<close>

lemma coalesce_block_nonnull:
  "coalesce_block s block = Some (s', b) \<Longrightarrow> block \<noteq> 0 \<Longrightarrow> b \<noteq> 0"
  by (auto simp: coalesce_block_def Let_def split: if_splits Option.bind_splits)

lemma extend_heap_null:
  assumes "extend_heap s sz mpalloc palloc = Some (s', 0)" "8 < mem_brk s"
  shows "s' = s"
proof (cases "mem_max_addr s < mem_brk s + unat (round_up sz dsize)")
  case True
  with assms(1) show ?thesis by (simp add: extend_heap_def mem_sbrk_def Let_def)
next
  case False
  with assms(1) obtain t where "coalesce_block t (payload_to_header (mem_brk s)) = Some (s', 0)"
    by (auto simp add: extend_heap_def mem_sbrk_def Let_def)
  moreover have "payload_to_header (mem_brk s) \<noteq> 0"
    using assms(2) by (simp add: payload_to_header_def)
  ultimately show ?thesis using coalesce_block_nonnull by blast
qed

lemma malloc_null_unchanged:
  assumes "malloc s sz = Some (s', 0)" "heap_start s \<noteq> 0" "8 < mem_brk s"
  shows "s' = s"
  using assms
  by (auto simp: malloc_def Let_def header_to_payload_def split: if_splits Option.bind_splits
           dest: extend_heap_null)

lemma malloc_full: "malloc heap_full 600 = Some (heap_full, 0)"
  by (simp add: heap_full_def run_simps cong: bind_weak_cong let_weak_cong)

text \<open>
  C4: in an initialised allocator, for every pointer other than null and every size
  other than 0, if the request that \<^verbatim>\<open>realloc\<close> makes to \<^verbatim>\<open>malloc\<close> returns null, then
  \<^verbatim>\<open>realloc\<close> returns null and the whole state is as before the call; so the old
  block keeps its header, its size, its contents and its place outside the free lists.
\<close>

theorem realloc_failure_keeps_block:
  assumes "initialised s" "ptr \<noteq> 0" "sz \<noteq> 0" "malloc s sz = Some (s', 0)"
  shows "s' = s \<and> realloc s ptr sz = Some (s, 0)"
proof -
  have "s' = s"
    using assms(1,4) malloc_null_unchanged [of s sz s'] by (simp add: initialised_def)
  with assms show ?thesis by (simp add: realloc_def Let_def)
qed

theorem realloc_failure_keeps_block_witness:
  "initialised heap_full \<and> (4112 :: nat) \<noteq> 0 \<and> (600 :: size_t) \<noteq> 0 \<and>
     malloc heap_full 600 = Some (heap_full, 0) \<and>
     realloc heap_full 4112 600 = Some (heap_full, 0) \<and>
     get_alloc heap_full (payload_to_header 4112)"
proof -
  have i: "initialised heap_full" by (simp add: initialised_def heap_full_def)
  have a: "get_alloc heap_full (payload_to_header 4112)"
    by (simp add: heap_full_def nav_defs codec_defs const_defs image_simps)
  show ?thesis
    using realloc_failure_keeps_block [OF i _ _ malloc_full, of 4112] i a malloc_full by simp
qed


section \<open>Requests whose size wraps around\<close>

text \<open>
  C7, at a failing input: \<^verbatim>\<open>malloc\<close> rounds \<open>size + 8\<close> up in 64-bit arithmetic.  For a
  request of \<open>2\<^sup>6\<^sup>4 - 1\<close> bytes the sum wraps to 7 and the block size becomes 16, so the
  call succeeds on the fresh allocator and returns the payload of a block of 16 bytes,
  which has room for 8 bytes.
\<close>

theorem malloc_wrapped_size_too_small:
  "malloc fresh_heap 0xFFFFFFFFFFFFFFFF = Some (heap_e, 4112) \<and>
     round_up (0xFFFFFFFFFFFFFFFF + wsize) dsize = 16 \<and>
     get_alloc heap_e (payload_to_header 4112) \<and>
     get_size heap_e (payload_to_header 4112) = 16 \<and>
     get_payload_size heap_e (payload_to_header 4112) = 8"
  by (simp add: run_e) (simp add: heap_e_def nav_defs codec_defs const_defs image_simps)

text \<open>
  C1, at a failing input: for a request of \<open>2\<^sup>6\<^sup>4 - 8\<close> bytes the rounded block size
  wraps to 0.  On the fresh allocator \<^verbatim>\<open>malloc\<close> then splits a block of size 0 off the
  free block of 1024 bytes, writes the free block back over it and returns its payload
  while the block stays in its free list.  Releasing that pointer puts the block into
  the list a second time.  A request of 24 bytes splits it and leaves the allocated
  front part in the list, and a request of 1 byte takes that allocated part again and
  splits it.  In the end the arena holds an allocated block at 4104 followed by two free
  blocks, at 4120 and at 4136.
\<close>

theorem wrapped_request_leaves_adjacent_free_blocks:
  "do { (s1, p) \<leftarrow> malloc fresh_heap 0xFFFFFFFFFFFFFFF8;
        s2 \<leftarrow> free s1 p;
        (s3, q) \<leftarrow> malloc s2 24;
        (s4, r) \<leftarrow> malloc s3 1;
        Some (s4, [p, q, r]) } = Some (heap_d, [4112, 4112, 4112]) \<and>
     heap_blocks heap_d = [4104, 4120, 4136] \<and>
     map (get_alloc heap_d) (heap_blocks heap_d) = [True, False, False] \<and>
     adjacent_free heap_d (heap_blocks heap_d)"
proof -
  have "map (get_alloc heap_d) [4104, 4120, 4136] = [True, False, False]"
    by (simp add: heap_d_def codec_defs const_defs image_simps)
  then show ?thesis
    by (simp add: run_a run_b run_c run_d blocks_d)
qed

section \<open>The window of the fit search\<close>

text \<open>
  C2, at a failing input: bucket 8 lists the free blocks at 5592, 5080, 4584 and 4104, of
  512, 496, 480 and 464 bytes.  A search for 464 bytes meets the first fit at 5592 and
  returns the block at 4584, the second block after the first fit, with a leftover of
  16 bytes.  The third block after the first fit, at 4104 with leftover 0, is not looked
  at: the counter starts at 3 and the pass that finds the first fit already counts.
\<close>

theorem find_fit_stops_after_two_more:
  "find_fit heap_four 464 8 = Some 4584 \<and>
     seglist heap_four ! 8 = 5592 \<and>
     map (next_of heap_four) [5592, 5080, 4584, 4104] = [5080, 4584, 4104, 0] \<and>
     map (get_size heap_four) [5592, 5080, 4584, 4104] = [512, 496, 480, 464] \<and>
     home_address 464 = 8"
  by (simp add: heap_four_def list_defs nav_defs codec_defs const_defs image_simps Let_def
      cong: bind_weak_cong let_weak_cong)

section \<open>Words at aligned addresses\<close>







lemma globals_set_header [simp]:
  "seglist (set_header s a w) = seglist s"
  "mini_root (set_header s a w) = mini_root s"
  "mem_brk (set_header s a w) = mem_brk s"
  by (simp_all add: set_header_def)

lemma header_globals [simp]:
  "header (s\<lparr>seglist := l\<rparr>) = header s"
  "header (s\<lparr>mini_root := r\<rparr>) = header s"
  by (simp_all add: header_def fun_eq_iff)

lemma untouched_refl: "untouched W s s"
  by (simp add: untouched_def)





lemma untouched_mini_root: "untouched {} s (s\<lparr>mini_root := r\<rparr>)"
  by (simp add: untouched_def)

lemma untouched_header: "untouched W s s' \<Longrightarrow> 8 dvd c \<Longrightarrow> c \<notin> W \<Longrightarrow> header s' c = header s c"
  by (simp add: untouched_def)

lemma untouched_get_size:
  "untouched W s s' \<Longrightarrow> 8 dvd c \<Longrightarrow> c \<notin> W \<Longrightarrow> get_size s' c = get_size s c"
  by (simp add: get_size_def untouched_header)






subsection \<open>What the operations write\<close>






lemma unat_of_nat_next_of [simp]: "unat (of_nat (next_of s x) :: 64 word) = next_of s x"
  by (simp add: next_of_def load_ptr_def)

lemma unat_of_nat_prev_of [simp]: "unat (of_nat (prev_of s x) :: 64 word) = prev_of s x"
  by (simp add: prev_of_def load_ptr_def)








lemma isMiniBlock_untouched:
  "untouched W s s' \<Longrightarrow> 8 dvd b \<Longrightarrow> b \<notin> W \<Longrightarrow> isMiniBlock s' b = isMiniBlock s b"
  by (simp add: isMiniBlock_def untouched_get_size)



section \<open>Lists in memory\<close>











section \<open>Splitting a block of a bucket\<close>

lemma free_lists_linked: "free_lists s L M \<Longrightarrow> linked s L M"
  by (simp add: free_lists_def linked_def)



lemma free_lists_bucket_unique:
  assumes "free_lists s L M" "i < BUCKET_COUNT" "x \<in> set (L ! i)"
  shows "home_address (get_size s x) = i" "x \<in> set (concat L)"
  using assms by (auto simp: free_lists_def)









subsection \<open>Rebuilding the description of the free lists\<close>





subsection \<open>The blocks around the block that is split\<close>






subsection \<open>Splitting: the block is allocated whole\<close>


subsection \<open>Splitting: the remainder enters a free list\<close>









subsection \<open>Splitting: the block is cut in two\<close>


subsection \<open>What fit search returns\<close>

lemma find_fit_bucket_dlist:
  assumes "dlist s q p xs" and "set xs \<subseteq> N"
    and "best_block l = 0 \<or> (best_block l \<in> N \<and> asize \<le> get_size s (best_block l))"
  shows "\<exists>res. find_fit_bucket s asize p l = Some res \<and>
     (case res of
        Returned b \<Rightarrow> b = 0 \<or> (b \<in> N \<and> asize \<le> get_size s b)
      | Exhausted l' \<Rightarrow>
          best_block l' = 0 \<or> (best_block l' \<in> N \<and> asize \<le> get_size s (best_block l')))"
  using assms
proof (induction xs arbitrary: q p l)
  case Nil
  then show ?case by (simp add: find_fit_bucket.simps)
next
  case (Cons x xs)
  then have p: "p = x" "x \<noteq> 0" and d: "dlist s x (next_of s x) xs"
    and sub: "set xs \<subseteq> N" and xN: "x \<in> N" by simp_all
  define l1 where "l1 = consider_block s asize x l"
  define l2 where "l2 = l1\<lparr>counter := counter l1 - 1\<rparr>"
  have i1: "best_block l1 = 0 \<or> (best_block l1 \<in> N \<and> asize \<le> get_size s (best_block l1))"
    using Cons.prems(3) xN by (auto simp: l1_def consider_block_def)
  then have i2: "best_block l2 = 0 \<or> (best_block l2 \<in> N \<and> asize \<le> get_size s (best_block l2))"
    by (simp add: l2_def)
  show ?case
  proof (cases "0 < get_size s x")
    case False
    then have "find_fit_bucket s asize p l = Some (Exhausted l)"
      by (subst find_fit_bucket.simps) (simp add: p)
    then show ?thesis using Cons.prems(3) by simp
  next
    case True
    show ?thesis
    proof (cases "count_switch l1")
      case False
      then have "find_fit_bucket s asize p l = find_fit_bucket s asize (next_of s x) l1"
        using True by (subst find_fit_bucket.simps) (simp add: p l1_def)
      then show ?thesis using Cons.IH [OF d sub i1] by simp
    next
      case cs: True
      show ?thesis
      proof (cases "counter l2 = 0")
        case True
        then have "find_fit_bucket s asize p l = Some (Returned (best_block l2))"
          using \<open>0 < get_size s x\<close> cs
          by (subst find_fit_bucket.simps) (simp add: p l1_def [symmetric] l2_def [symmetric] Let_def)
        then show ?thesis using i2 by simp
      next
        case False
        then have "find_fit_bucket s asize p l = find_fit_bucket s asize (next_of s x) l2"
          using \<open>0 < get_size s x\<close> cs
          by (subst find_fit_bucket.simps) (simp add: p l1_def [symmetric] l2_def [symmetric] Let_def)
        then show ?thesis using Cons.IH [OF d sub i2] by simp
      qed
    qed
  qed
qed

lemma find_fit_from_lists:
  assumes fl: "free_lists s L M"
  shows "best_block l = 0 \<or>
         (best_block l \<in> set (concat L) \<and> asize \<le> get_size s (best_block l)) \<Longrightarrow>
     \<exists>b. find_fit_from s asize i l = Some b \<and>
       (b = 0 \<or> (b \<in> set (concat L) \<and> asize \<le> get_size s b))"
proof (induction "BUCKET_COUNT - i" arbitrary: i l)
  case 0
  then have "\<not> i < BUCKET_COUNT" by simp
  then have "find_fit_from s asize i l = Some (best_block l)"
    by (subst find_fit_from.simps) simp
  then show ?case using "0.prems" by simp
next
  case (Suc n)
  then have i: "i < BUCKET_COUNT" and n: "n = BUCKET_COUNT - (i + 1)" by simp_all
  have d: "dlist s 0 (seglist s ! i) (L ! i)" using fl i by (simp add: free_lists_def)
  have sub: "set (L ! i) \<subseteq> set (concat L)"
    using free_lists_bucket_unique(2) [OF fl i] by auto
  from find_fit_bucket_dlist [OF d sub Suc.prems]
  obtain res where res: "find_fit_bucket s asize (seglist s ! i) l = Some res"
    "case res of
        Returned b \<Rightarrow> b = 0 \<or> (b \<in> set (concat L) \<and> asize \<le> get_size s b)
      | Exhausted l' \<Rightarrow> best_block l' = 0 \<or>
          (best_block l' \<in> set (concat L) \<and> asize \<le> get_size s (best_block l'))"
    by blast
  show ?case
  proof (cases res)
    case (Returned b)
    then have "find_fit_from s asize i l = Some b"
      using i res(1) by (subst find_fit_from.simps) simp
    then show ?thesis using res(2) Returned by simp
  next
    case (Exhausted l1)
    then have inv: "best_block l1 = 0 \<or>
        (best_block l1 \<in> set (concat L) \<and> asize \<le> get_size s (best_block l1))"
      using res(2) by simp
    show ?thesis
    proof (cases "best_block l1 = 0")
      case True
      then have "find_fit_from s asize i l = find_fit_from s asize (i + 1) l1"
        using i res(1) Exhausted by (subst find_fit_from.simps) simp
      then show ?thesis using Suc.hyps(1) [OF n inv] by simp
    next
      case False
      then have "find_fit_from s asize i l = Some (best_block l1)"
        using i res(1) Exhausted by (subst find_fit_from.simps) simp
      then show ?thesis using inv by simp
    qed
  qed
qed

lemma find_fit_chooses:
  assumes "free_lists s L M"
  shows "\<exists>b. find_fit s asize idx = Some b \<and>
     (b = 0 \<or> (b \<in> set (concat L) \<and> asize \<le> get_size s b))"
  unfolding find_fit_def by (rule find_fit_from_lists [OF assms]) simp

subsection \<open>The effect of splitting\<close>






end
